theory Spec2Isabelle
  imports Main
begin

section \<open>Values, entities and model classes\<close>

text \<open>
  The generic repository of \<^verbatim>\<open>app/repositories/base.py\<close> reaches the attributes of
  its entities by name (\<^verbatim>\<open>hasattr\<close>, \<^verbatim>\<open>getattr\<close>, \<^verbatim>\<open>setattr\<close>), so an
  entity is modelled as Python has it: a dictionary from attribute names to values, kept
  as an association list. A UUID is a natural number, a \<^verbatim>\<open>datetime\<close> is a natural
  number of clock ticks, and a \<^verbatim>\<open>str\<close> is a byte string.
\<close>

datatype val = VNone | VBool bool | VInt int | VStr string | VUuid nat | VTime nat

type_synonym entity = "(string \<times> val) list"

text \<open>Reading a mapped column that holds no value gives \<^verbatim>\<open>None\<close>.\<close>

definition getattr :: "entity \<Rightarrow> string \<Rightarrow> val" where
  "getattr obj k = (case map_of obj k of Some v \<Rightarrow> v | None \<Rightarrow> VNone)"

fun setattr :: "entity \<Rightarrow> string \<Rightarrow> val \<Rightarrow> entity" where
  "setattr [] k v = [(k, v)]"
| "setattr ((k', v') # obj) k v = (if k' = k then (k, v) # obj else (k', v') # setattr obj k v)"

text \<open>Python's truth value of an attribute, as \<^verbatim>\<open>if addr.is_default:\<close> takes it.\<close>

fun truthy :: "val \<Rightarrow> bool" where
  "truthy VNone = False"
| "truthy (VBool b) = b"
| "truthy (VInt i) = (i \<noteq> 0)"
| "truthy (VStr s) = (s \<noteq> [])"
| "truthy (VUuid u) = True"
| "truthy (VTime t) = True"

text \<open>
  A model class is known to the repository by its \<^verbatim>\<open>__name__\<close> and by the attributes
  \<^verbatim>\<open>hasattr\<close> finds on it.
\<close>

record model_class =
  name :: string
  attributes :: "string list"

definition hasattr :: "model_class \<Rightarrow> string \<Rightarrow> bool" where
  "hasattr m k = (k \<in> set (attributes m))"

text \<open>The two table models of \<^verbatim>\<open>app/models/models.py\<close>.\<close>

definition AddressBase_fields :: "string list" where
  "AddressBase_fields = [''street_address'', ''apartment'', ''city'', ''county'',
     ''postal_code'', ''is_default'', ''delivery_instructions'']"

definition Address :: model_class where
  "Address = \<lparr>name = ''Address'',
     attributes = AddressBase_fields @
       [''id'', ''owner_id'', ''created_at'', ''updated_at'', ''deleted_at'', ''user'']\<rparr>"

definition UserBase_fields :: "string list" where
  "UserBase_fields = [''email'', ''full_name'', ''phone_number'', ''is_active'',
     ''is_verified'', ''role'']"

definition User :: model_class where
  "User = \<lparr>name = ''User'',
     attributes = UserBase_fields @
       [''id'', ''created_at'', ''updated_at'', ''last_login'', ''deleted_at'',
        ''hashed_password'', ''addresses'']\<rparr>"

text \<open>The public schemas: \<^verbatim>\<open>model_validate\<close> reads exactly their fields off an entity.\<close>

definition AddressPublic :: "string list" where
  "AddressPublic = AddressBase_fields @ [''id'', ''owner_id'', ''created_at'', ''updated_at'']"


definition model_validate :: "string list \<Rightarrow> entity \<Rightarrow> entity" where
  "model_validate schema obj = map (\<lambda>f. (f, getattr obj f)) schema"

section \<open>Errors\<close>

text \<open>
  Every \<^verbatim>\<open>raise\<close> is a value. The status codes are the constants of
  \<^verbatim>\<open>fastapi.status\<close> by their own names; \<^verbatim>\<open>HTTP_409_CONFLICT\<close> is the one no
  source file uses. \<^verbatim>\<open>AttributeError\<close> carries the type and the attribute that was
  missing, \<^verbatim>\<open>MultipleResultsFound\<close> is what \<^verbatim>\<open>scalar_one_or_none\<close> raises on two
  rows, and \<^verbatim>\<open>DataError\<close> is PostgreSQL refusing a negative OFFSET or LIMIT.
\<close>

datatype http_status =
    HTTP_400_BAD_REQUEST
  | HTTP_401_UNAUTHORIZED
  | HTTP_403_FORBIDDEN
  | HTTP_404_NOT_FOUND
  | HTTP_409_CONFLICT

datatype error =
    HTTPException http_status string
  | ValueError string
  | AttributeError string string
  | MultipleResultsFound
  | DataError

section \<open>The session and its queries\<close>

text \<open>
  A table is the list of its rows as the request's session holds them. The session keeps
  one object per primary key, so writing an attribute of a loaded object changes the row
  of that key; \<^verbatim>\<open>session.add\<close> of an object that has no row inserts it. The session
  is built with \<^verbatim>\<open>autoflush=False\<close>, and a query is answered from the rows with the
  session's objects in place of the rows they were loaded from: the only write that is
  left pending across a query is the one of \<^verbatim>\<open>clear_default\<close> to
  \<^verbatim>\<open>is_default\<close>, and the query that follows it selects on \<^verbatim>\<open>id\<close> and
  \<^verbatim>\<open>deleted_at\<close>. \<^verbatim>\<open>commit\<close> and \<^verbatim>\<open>refresh\<close> then leave what the session
  reads as it is; the checks the database engine makes on its own at commit are not part
  of the embedding.
\<close>

type_synonym table = "entity list"

definition session_write :: "val \<Rightarrow> entity \<Rightarrow> table \<Rightarrow> table" where
  "session_write key obj rows = map (\<lambda>r. if getattr r ''id'' = key then obj else r) rows"

definition session_add :: "val \<Rightarrow> entity \<Rightarrow> table \<Rightarrow> table" where
  "session_add key obj rows =
     (if key \<in> set (map (\<lambda>r. getattr r ''id'') rows) then session_write key obj rows
      else rows @ [obj])"

record query =
  criteria :: "(entity \<Rightarrow> bool) list"
  q_offset :: "int option"
  q_limit :: "int option"

definition select :: query where
  "select = \<lparr>criteria = [], q_offset = None, q_limit = None\<rparr>"

definition query_where :: "query \<Rightarrow> (entity \<Rightarrow> bool) \<Rightarrow> query" where
  "query_where q c = q\<lparr>criteria := criteria q @ [c]\<rparr>"

definition matching :: "query \<Rightarrow> table \<Rightarrow> entity list" where
  "matching q rows = filter (\<lambda>r. list_all (\<lambda>c. c r) (criteria q)) rows"

definition paginate :: "int option \<Rightarrow> int option \<Rightarrow> entity list \<Rightarrow> error + entity list" where
  "paginate off lim xs =
     (case off of
        None \<Rightarrow> (case lim of None \<Rightarrow> Inr xs
                  | Some l \<Rightarrow> if l < 0 then Inl DataError else Inr (take (nat l) xs))
      | Some k \<Rightarrow>
          if k < 0 then Inl DataError
          else (case lim of None \<Rightarrow> Inr (drop (nat k) xs)
                | Some l \<Rightarrow> if l < 0 then Inl DataError
                            else Inr (take (nat l) (drop (nat k) xs))))"

definition execute :: "table \<Rightarrow> query \<Rightarrow> error + entity list" where
  "execute rows q = paginate (q_offset q) (q_limit q) (matching q rows)"


fun scalar_one_or_none :: "entity list \<Rightarrow> error + entity option" where
  "scalar_one_or_none [] = Inr None"
| "scalar_one_or_none [x] = Inr (Some x)"
| "scalar_one_or_none (x # y # xs) = Inl MultipleResultsFound"

section \<open>The generic repository\<close>

definition base_query :: "model_class \<Rightarrow> query" where
  "base_query m =
     (let query = select in
      if hasattr m ''deleted_at''
      then query_where query (\<lambda>r. getattr r ''deleted_at'' = VNone)
      else query)"

definition get :: "model_class \<Rightarrow> table \<Rightarrow> val \<Rightarrow> error + entity option" where
  "get m rows i =
     (let query = query_where (base_query m) (\<lambda>r. getattr r ''id'' = i) in
      case execute rows query of
        Inl e \<Rightarrow> Inl e
      | Inr result \<Rightarrow> scalar_one_or_none result)"





text \<open>
  \<^verbatim>\<open>obj_in\<close> of \<^verbatim>\<open>update\<close> is a dictionary, or a schema object with its field
  values and the set of fields that were given explicitly, which is what
  \<^verbatim>\<open>model_dump(exclude_unset=True)\<close> keeps.
\<close>

datatype update_in =
    Dict "(string \<times> val) list"
  | Schema "(string \<times> val) list" "string list"

fun update_data :: "update_in \<Rightarrow> (string \<times> val) list" where
  "update_data (Dict d) = d"
| "update_data (Schema vals fields_set) = filter (\<lambda>(k, v). k \<in> set fields_set) vals"

fun apply_updates :: "(string \<times> val) list \<Rightarrow> entity \<Rightarrow> entity" where
  "apply_updates [] db_obj = db_obj"
| "apply_updates ((field, value) # items) db_obj = apply_updates items (setattr db_obj field value)"

definition update ::
  "model_class \<Rightarrow> nat \<Rightarrow> entity \<Rightarrow> update_in \<Rightarrow> table \<Rightarrow> (error + entity) \<times> table" where
  "update m utcnow db_obj obj_in rows =
     (if hasattr m ''deleted_at'' \<and> getattr db_obj ''deleted_at'' \<noteq> VNone
      then (Inl (HTTPException HTTP_404_NOT_FOUND ''Record not found or has been deleted''), rows)
      else
        let obj = apply_updates (update_data obj_in) db_obj;
            obj = (if hasattr m ''updated_at''
                   then setattr obj ''updated_at'' (VTime utcnow) else obj)
        in (Inr obj, session_add (getattr db_obj ''id'') obj rows))"

definition soft_delete ::
  "model_class \<Rightarrow> nat \<Rightarrow> val \<Rightarrow> table \<Rightarrow> (error + entity) \<times> table" where
  "soft_delete m utcnow i rows =
     (if \<not> hasattr m ''deleted_at''
      then (Inl (ValueError (name m @
              '' does not support soft delete. Add 'deleted_at: datetime | None' field to enable.'')),
            rows)
      else
        case get m rows i of
          Inl e \<Rightarrow> (Inl e, rows)
        | Inr None \<Rightarrow> (Inl (HTTPException HTTP_404_NOT_FOUND (name m @ '' not found'')), rows)
        | Inr (Some db_obj) \<Rightarrow>
            let obj = setattr db_obj ''deleted_at'' (VTime utcnow)
            in (Inr obj, session_add (getattr db_obj ''id'') obj rows))"

section \<open>The address repository and service\<close>

definition get_by_owner :: "val \<Rightarrow> table \<Rightarrow> error + entity list" where
  "get_by_owner owner_id rows =
     (let statement = query_where (query_where select (\<lambda>r. getattr r ''owner_id'' = owner_id))
                        (\<lambda>r. getattr r ''deleted_at'' = VNone)
      in execute rows statement)"

text \<open>
  The loop of \<^verbatim>\<open>clear_default\<close> writes to the objects the query returned; each write
  lands on the row of the object's primary key.
\<close>

fun clear_loop :: "entity list \<Rightarrow> table \<Rightarrow> table" where
  "clear_loop [] rows = rows"
| "clear_loop (addr # addresses) rows =
     clear_loop addresses
       (if truthy (getattr addr ''is_default'')
        then session_write (getattr addr ''id'') (setattr addr ''is_default'' (VBool False)) rows
        else rows)"

definition clear_default :: "val \<Rightarrow> table \<Rightarrow> (error + unit) \<times> table" where
  "clear_default owner_id rows =
     (case get_by_owner owner_id rows of
        Inl e \<Rightarrow> (Inl e, rows)
      | Inr addresses \<Rightarrow> (Inr (), clear_loop addresses rows))"

text \<open>
  \<^verbatim>\<open>set_default\<close> of the repository: \<^verbatim>\<open>address.is_default = True\<close> on the
  \<^verbatim>\<open>None\<close> that \<^verbatim>\<open>get\<close> returns for an unknown or soft-deleted id is an
  \<^verbatim>\<open>AttributeError\<close>.
\<close>

definition set_default :: "val \<Rightarrow> val \<Rightarrow> table \<Rightarrow> (error + entity) \<times> table" where
  "set_default address_id owner_id rows =
     (case clear_default owner_id rows of
        (Inl e, rows1) \<Rightarrow> (Inl e, rows1)
      | (Inr u, rows1) \<Rightarrow>
          (case get Address rows1 address_id of
             Inl e \<Rightarrow> (Inl e, rows1)
           | Inr None \<Rightarrow> (Inl (AttributeError ''NoneType'' ''is_default''), rows1)
           | Inr (Some address) \<Rightarrow>
               let obj = setattr address ''is_default'' (VBool True)
               in (Inr obj, session_add (getattr address ''id'') obj rows1)))"

definition get_address :: "val \<Rightarrow> val \<Rightarrow> table \<Rightarrow> error + entity" where
  "get_address address_id owner_id rows =
     (case get Address rows address_id of
        Inl e \<Rightarrow> Inl e
      | Inr None \<Rightarrow> Inl (HTTPException HTTP_404_NOT_FOUND ''Address not found'')
      | Inr (Some address) \<Rightarrow>
          if getattr address ''owner_id'' \<noteq> owner_id
          then Inl (HTTPException HTTP_404_NOT_FOUND ''Address not found'')
          else Inr (model_validate AddressPublic address))"

definition service_set_default :: "val \<Rightarrow> val \<Rightarrow> table \<Rightarrow> (error + entity) \<times> table" where
  "service_set_default address_id owner_id rows =
     (case set_default address_id owner_id rows of
        (Inl e, rows1) \<Rightarrow> (Inl e, rows1)
      | (Inr address, rows1) \<Rightarrow> (Inr (model_validate AddressPublic address), rows1))"

section \<open>Passwords\<close>

text \<open>
  \<^verbatim>\<open>app/core/security.py\<close> calls the bcrypt library, which is not part of the
  repository: \<^verbatim>\<open>hashpw\<close> and \<^verbatim>\<open>checkpw\<close> are parameters, \<^verbatim>\<open>checkpw\<close> giving
  \<^verbatim>\<open>None\<close> where the library raises, and the salt of \<^verbatim>\<open>gensalt\<close> is an argument.
\<close>

record bcrypt =
  hashpw :: "string \<Rightarrow> string \<Rightarrow> string"
  checkpw :: "string \<Rightarrow> string \<Rightarrow> bool option"

definition truncate72 :: "string \<Rightarrow> string" where
  "truncate72 password_bytes =
     (if length password_bytes > 72 then take 72 password_bytes else password_bytes)"

text \<open>
  A stored hash that is not a string makes \<^verbatim>\<open>checkpw\<close> raise, and every exception
  is answered with \<^verbatim>\<open>False\<close>.
\<close>

definition verify_password :: "bcrypt \<Rightarrow> string \<Rightarrow> val \<Rightarrow> bool" where
  "verify_password bc plain_password hashed_password =
     (case hashed_password of
        VStr hashed \<Rightarrow>
          (case checkpw bc (truncate72 plain_password) hashed of
             None \<Rightarrow> False
           | Some b \<Rightarrow> b)
      | _ \<Rightarrow> False)"

definition get_password_hash :: "bcrypt \<Rightarrow> string \<Rightarrow> string \<Rightarrow> string" where
  "get_password_hash bc salt password = hashpw bc (truncate72 password) salt"

section \<open>The user repository and service\<close>

record UserCreate =
  email :: string
  full_name :: "string option"
  phone_number :: "string option"
  is_active :: bool
  is_verified :: bool
  role :: string
  password :: string




definition get_user_by_email :: "string \<Rightarrow> table \<Rightarrow> error + entity option" where
  "get_user_by_email e rows =
     (let query = query_where (query_where select (\<lambda>r. getattr r ''email'' = VStr e))
                    (\<lambda>r. getattr r ''deleted_at'' = VNone)
      in case execute rows query of
           Inl err \<Rightarrow> Inl err
         | Inr result \<Rightarrow> scalar_one_or_none result)"


definition update_password :: "bcrypt \<Rightarrow> string \<Rightarrow> nat \<Rightarrow> entity \<Rightarrow> string \<Rightarrow> table \<Rightarrow> entity \<times> table" where
  "update_password bc salt utcnow db_obj new_password rows =
     (let obj = setattr db_obj ''hashed_password'' (VStr (get_password_hash bc salt new_password));
          obj = setattr obj ''updated_at'' (VTime utcnow)
      in (obj, session_add (getattr db_obj ''id'') obj rows))"

definition change_password ::
  "bcrypt \<Rightarrow> string \<Rightarrow> nat \<Rightarrow> entity \<Rightarrow> string \<Rightarrow> string \<Rightarrow> table \<Rightarrow> (error + unit) \<times> table" where
  "change_password bc salt utcnow user old_password new_password rows =
     (if \<not> verify_password bc old_password (getattr user ''hashed_password'')
      then (Inl (HTTPException HTTP_400_BAD_REQUEST ''Incorrect password''), rows)
      else if verify_password bc new_password (getattr user ''hashed_password'')
      then (Inl (HTTPException HTTP_400_BAD_REQUEST ''New password cannot be same as current''), rows)
      else (Inr (), snd (update_password bc salt utcnow user new_password rows)))"

section \<open>The authorization guard\<close>

text \<open>
  \<^verbatim>\<open>jwt.decode\<close> of the jose library and the validation of \<^verbatim>\<open>TokenPayload\<close> are
  one parameter: a token is refused (\<^verbatim>\<open>JWTError\<close> or \<^verbatim>\<open>ValidationError\<close>) or yields
  the payload's \<^verbatim>\<open>sub\<close>, which may be \<^verbatim>\<open>None\<close>. \<^verbatim>\<open>session.get\<close> loads by primary
  key alone.
\<close>

datatype decoded = Refused | TokenPayload "nat option"

definition session_get :: "table \<Rightarrow> nat option \<Rightarrow> error + entity option" where
  "session_get rows ident =
     (case ident of
        None \<Rightarrow> Inr None
      | Some u \<Rightarrow> scalar_one_or_none (filter (\<lambda>r. getattr r ''id'' = VUuid u) rows))"

definition get_current_user :: "(string \<Rightarrow> decoded) \<Rightarrow> table \<Rightarrow> string \<Rightarrow> error + entity" where
  "get_current_user jwt_decode rows token =
     (case jwt_decode token of
        Refused \<Rightarrow> Inl (HTTPException HTTP_403_FORBIDDEN ''Could not validate credentials'')
      | TokenPayload sub \<Rightarrow>
          (case session_get rows sub of
             Inl e \<Rightarrow> Inl e
           | Inr None \<Rightarrow> Inl (HTTPException HTTP_404_NOT_FOUND ''User not found'')
           | Inr (Some user) \<Rightarrow>
               if \<not> truthy (getattr user ''is_active'')
               then Inl (HTTPException HTTP_400_BAD_REQUEST ''Inactive user'')
               else Inr user))"

section \<open>Notions the properties are stated with\<close>

text \<open>
  The primary key of a table: no two rows carry the same \<^verbatim>\<open>id\<close>. Both table models
  declare \<^verbatim>\<open>id\<close> with \<^verbatim>\<open>primary_key=True\<close>.
\<close>

definition primary_key :: "table \<Rightarrow> bool" where
  "primary_key rows = distinct (map (\<lambda>r. getattr r ''id'') rows)"

text \<open>A row counts as live for a model class when the class has no deletion timestamp or the row's is unset.\<close>

definition live :: "model_class \<Rightarrow> entity \<Rightarrow> bool" where
  "live m r = (if hasattr m ''deleted_at'' then getattr r ''deleted_at'' = VNone else True)"

text \<open>The non-deleted addresses of an owner that carry the default flag.\<close>

definition is_default_of :: "val \<Rightarrow> entity \<Rightarrow> bool" where
  "is_default_of owner_id r =
     (getattr r ''deleted_at'' = VNone \<and> getattr r ''owner_id'' = owner_id \<and>
      truthy (getattr r ''is_default''))"

definition defaults_of :: "val \<Rightarrow> table \<Rightarrow> entity list" where
  "defaults_of owner_id rows = filter (is_default_of owner_id) rows"

text \<open>
  What a filter dictionary asks of a row once the entries with a \<^verbatim>\<open>None\<close> value or
  with a key the model class does not have are left out.
\<close>

definition satisfies :: "model_class \<Rightarrow> (string \<times> val) list \<Rightarrow> entity \<Rightarrow> bool" where
  "satisfies m fs r =
     list_all (\<lambda>(key, value). if value \<noteq> VNone \<and> hasattr m key then getattr r key = value else True) fs"



text \<open>
  One turn of the loop of \<^verbatim>\<open>clear_default\<close> as it acts on a single row, the row
  \<^verbatim>\<open>clear_default\<close> leaves in place of a row, and the row that \<^verbatim>\<open>set_default\<close>
  of the address \<open>a\<close> leaves in place of a row.
\<close>

definition clear_step :: "entity \<Rightarrow> entity \<Rightarrow> entity" where
  "clear_step addr r =
     (if truthy (getattr addr ''is_default'') \<and> getattr r ''id'' = getattr addr ''id''
      then setattr addr ''is_default'' (VBool False) else r)"

definition cleared :: "val \<Rightarrow> entity \<Rightarrow> entity" where
  "cleared owner_id r = (if is_default_of owner_id r then setattr r ''is_default'' (VBool False) else r)"

definition made_default :: "entity \<Rightarrow> val \<Rightarrow> entity \<Rightarrow> entity" where
  "made_default a owner_id r =
     (if getattr r ''id'' = getattr a ''id'' then setattr a ''is_default'' (VBool True)
      else cleared owner_id r)"

section \<open>Sample data\<close>

text \<open>
  Concrete rows, and an instance of the bcrypt parameters that is not the library (the
  hash is the reversed password, whatever the salt), on which the theorems below are run.
\<close>

definition sample_address :: "nat \<Rightarrow> nat \<Rightarrow> bool \<Rightarrow> val \<Rightarrow> entity" where
  "sample_address i owner dflt deleted =
     [(''id'', VUuid i), (''owner_id'', VUuid owner), (''city'', VStr ''Nairobi''),
      (''is_default'', VBool dflt), (''deleted_at'', deleted)]"

definition sample_addresses :: table where
  "sample_addresses =
     [sample_address 1 10 True VNone, sample_address 2 10 False VNone,
      sample_address 3 20 True VNone, sample_address 4 10 True (VTime 7)]"

definition sample_user :: "nat \<Rightarrow> string \<Rightarrow> string \<Rightarrow> bool \<Rightarrow> val \<Rightarrow> entity" where
  "sample_user i e hashed active deleted =
     [(''id'', VUuid i), (''email'', VStr e), (''hashed_password'', VStr hashed),
      (''is_active'', VBool active), (''deleted_at'', deleted)]"

definition toy_bcrypt :: bcrypt where
  "toy_bcrypt = \<lparr>hashpw = (\<lambda>p salt. rev p), checkpw = (\<lambda>p hashed. Some (hashed = rev p))\<rparr>"


text \<open>A model class without a deletion timestamp.\<close>

definition Plain :: model_class where
  "Plain = \<lparr>name = ''Plain'', attributes = [''id'', ''name'']\<rparr>"


definition sample_update :: update_in where
  "sample_update =
     Schema [(''street_address'', VNone), (''city'', VStr ''Mombasa''), (''county'', VNone),
             (''is_default'', VBool False)]
            [''city'']"

definition sample_users :: table where
  "sample_users =
     [sample_user 1 ''a@x.com'' (rev ''pw12345678'') True VNone,
      sample_user 2 ''b@x.com'' (rev ''secret-of-b'') True (VTime 7),
      sample_user 3 ''c@x.com'' (rev ''secret-of-c'') False VNone]"

definition sample_decode :: "string \<Rightarrow> decoded" where
  "sample_decode token =
     (if token = ''token-of-1'' then TokenPayload (Some 1)
      else if token = ''token-of-2'' then TokenPayload (Some 2)
      else if token = ''token-of-3'' then TokenPayload (Some 3)
      else Refused)"

section \<open>Attributes and queries\<close>

lemma getattr_setattr: "getattr (setattr obj k v) k' = (if k' = k then v else getattr obj k')"
  by (induction obj k v rule: setattr.induct) (auto simp: getattr_def)

lemma setattr_setattr: "setattr (setattr obj k v) k w = setattr obj k w"
  by (induction obj k v rule: setattr.induct) auto

lemma matching_where:
  "matching (query_where q c) rows = filter c (matching q rows)"
  by (auto simp: matching_def query_where_def intro: filter_cong)

lemma matching_select: "matching select rows = rows"
  by (simp add: matching_def select_def)

lemma matching_base_query: "matching (base_query m) rows = filter (live m) rows"
  by (auto simp: base_query_def Let_def matching_where matching_select live_def intro: filter_cong)

lemma pagination_none_where [simp]:
  "q_offset (query_where q c) = q_offset q" "q_limit (query_where q c) = q_limit q"
  by (simp_all add: query_where_def)

lemma pagination_none_select [simp]: "q_offset select = None" "q_limit select = None"
  by (simp_all add: select_def)

lemma pagination_none_base [simp]: "q_offset (base_query m) = None" "q_limit (base_query m) = None"
  by (simp_all add: base_query_def select_def Let_def)


lemma get_eq:
  "get m rows i = scalar_one_or_none (filter (\<lambda>r. live m r \<and> getattr r ''id'' = i) rows)"
proof -
  have "filter (\<lambda>r. getattr r ''id'' = i) (filter (live m) rows) =
        filter (\<lambda>r. live m r \<and> getattr r ''id'' = i) rows"
    by (induction rows) auto
  then show ?thesis
    by (simp add: get_def Let_def execute_def paginate_def matching_where matching_base_query)
qed


lemma hasattr_Address_deleted [simp]: "hasattr Address ''deleted_at''"
  by (simp add: hasattr_def Address_def)

lemma live_Address [simp]: "live Address r = (getattr r ''deleted_at'' = VNone)"
  by (simp add: live_def)

lemma filter_key_singleton:
  "distinct (map f xs) \<Longrightarrow> x \<in> set xs \<Longrightarrow> P x \<Longrightarrow> \<forall>y\<in>set xs. P y \<longrightarrow> f y = f x \<Longrightarrow>
   filter P xs = [x]"
proof (induction xs)
  case Nil
  then show ?case by simp
next
  case (Cons y ys)
  have key: "P z \<Longrightarrow> z \<in> set (y # ys) \<Longrightarrow> f z = f x" for z
    using Cons.prems(4) by blast
  have dist: "f y \<notin> f ` set ys" "distinct (map f ys)"
    using Cons.prems(1) by simp_all
  show ?case
  proof (cases "y = x")
    case True
    have "\<not> P z" if "z \<in> set ys" for z
    proof
      assume "P z"
      then have "f z = f y" using key [of z] that True by simp
      then show False using dist(1) that by (metis imageI)
    qed
    then have "filter P ys = []" by (simp add: filter_empty_conv)
    with True Cons.prems(3) show ?thesis by simp
  next
    case False
    with Cons.prems(2) have x: "x \<in> set ys" by simp
    have "\<not> P y"
    proof
      assume "P y"
      then have "f y = f x" using key [of y] by simp
      then show False using dist(1) x by (metis imageI)
    qed
    moreover have "\<forall>z\<in>set ys. P z \<longrightarrow> f z = f x" using key by simp
    then have "filter P ys = [x]"
      using Cons.IH [OF dist(2) x Cons.prems(3)] by blast
    ultimately show ?thesis by simp
  qed
qed

lemma get_unique:
  assumes "primary_key rows" "a \<in> set rows" "live m a"
  shows "get m rows (getattr a ''id'') = Inr (Some a)"
proof -
  have "distinct (map (\<lambda>r. getattr r ''id'') rows)"
    using assms(1) by (simp add: primary_key_def)
  then have "filter (\<lambda>r. live m r \<and> getattr r ''id'' = getattr a ''id'') rows = [a]"
    by (rule filter_key_singleton) (use assms in simp_all)
  then show ?thesis by (simp add: get_eq)
qed


lemma get_by_owner_eq:
  "get_by_owner owner_id rows =
     Inr (filter (\<lambda>r. getattr r ''deleted_at'' = VNone \<and> getattr r ''owner_id'' = owner_id) rows)"
proof -
  have "filter (\<lambda>r. getattr r ''deleted_at'' = VNone) (filter (\<lambda>r. getattr r ''owner_id'' = owner_id) rows) =
        filter (\<lambda>r. getattr r ''deleted_at'' = VNone \<and> getattr r ''owner_id'' = owner_id) rows"
    by (induction rows) auto
  then show ?thesis
    by (simp add: get_by_owner_def Let_def execute_def paginate_def matching_where matching_select)
qed

lemma clear_loop_fold: "clear_loop addresses rows = map (\<lambda>r. fold clear_step addresses r) rows"
proof (induction addresses arbitrary: rows)
  case Nil
  then show ?case by simp
next
  case (Cons addr addresses)
  have "(if truthy (getattr addr ''is_default'')
         then session_write (getattr addr ''id'') (setattr addr ''is_default'' (VBool False)) rows
         else rows) = map (clear_step addr) rows"
  proof (cases "truthy (getattr addr ''is_default'')")
    case True
    then show ?thesis by (simp add: session_write_def clear_step_def)
  next
    case False
    then have "map (clear_step addr) rows = rows"
      by (intro map_idI) (simp add: clear_step_def)
    with False show ?thesis by simp
  qed
  then show ?case using Cons.IH by (simp add: comp_def)
qed

lemma fold_clear_untouched:
  "\<forall>a\<in>set addresses. getattr a ''id'' = getattr r ''id'' \<longrightarrow> \<not> truthy (getattr a ''is_default'') \<Longrightarrow>
   fold clear_step addresses r = r"
  by (induction addresses) (auto simp: clear_step_def)

lemma fold_clear_done:
  "\<forall>a\<in>set addresses. getattr a ''id'' = getattr r ''id'' \<longrightarrow> a = r \<Longrightarrow>
   fold clear_step addresses (setattr r ''is_default'' (VBool False)) = setattr r ''is_default'' (VBool False)"
  by (induction addresses) (auto simp: clear_step_def getattr_setattr)

lemma fold_clear_hit:
  "\<forall>a\<in>set addresses. getattr a ''id'' = getattr r ''id'' \<longrightarrow> a = r \<Longrightarrow> r \<in> set addresses \<Longrightarrow>
   truthy (getattr r ''is_default'') \<Longrightarrow>
   fold clear_step addresses r = setattr r ''is_default'' (VBool False)"
proof (induction addresses)
  case Nil
  then show ?case by simp
next
  case (Cons a addresses)
  show ?case
  proof (cases "a = r")
    case True
    then have "fold clear_step (a # addresses) r =
               fold clear_step addresses (setattr r ''is_default'' (VBool False))"
      using Cons.prems(3) by (simp add: clear_step_def)
    also have "\<dots> = setattr r ''is_default'' (VBool False)"
      using Cons.prems(1) by (intro fold_clear_done) simp
    finally show ?thesis .
  next
    case False
    with Cons.prems(1) have "getattr a ''id'' \<noteq> getattr r ''id''" by auto
    then have "fold clear_step (a # addresses) r = fold clear_step addresses r"
      by (auto simp: clear_step_def)
    moreover have "fold clear_step addresses r = setattr r ''is_default'' (VBool False)"
      using Cons.IH Cons.prems False by simp
    ultimately show ?thesis by simp
  qed
qed

lemma same_id_same_row:
  "primary_key rows \<Longrightarrow> a \<in> set rows \<Longrightarrow> r \<in> set rows \<Longrightarrow> getattr a ''id'' = getattr r ''id'' \<Longrightarrow> a = r"
  unfolding primary_key_def by (metis distinct_map inj_onD)

lemma clear_default_eq:
  assumes pk: "primary_key rows"
  shows "clear_default owner_id rows = (Inr (), map (cleared owner_id) rows)"
proof -
  let ?Q = "\<lambda>r. getattr r ''deleted_at'' = VNone \<and> getattr r ''owner_id'' = owner_id"
  let ?as = "filter ?Q rows"
  have "fold clear_step ?as r = cleared owner_id r" if r: "r \<in> set rows" for r
  proof (cases "is_default_of owner_id r")
    case True
    then have "r \<in> set ?as" "truthy (getattr r ''is_default'')"
      using r by (simp_all add: is_default_of_def)
    moreover have "\<forall>a\<in>set ?as. getattr a ''id'' = getattr r ''id'' \<longrightarrow> a = r"
      using same_id_same_row [OF pk _ r] by simp
    ultimately show ?thesis using True by (simp add: fold_clear_hit cleared_def)
  next
    case False
    have "\<forall>a\<in>set ?as. getattr a ''id'' = getattr r ''id'' \<longrightarrow> \<not> truthy (getattr a ''is_default'')"
    proof (intro ballI impI)
      fix a assume a: "a \<in> set ?as" "getattr a ''id'' = getattr r ''id''"
      then have "a = r" using same_id_same_row [OF pk _ r] by simp
      with a(1) False show "\<not> truthy (getattr a ''is_default'')"
        by (simp add: is_default_of_def)
    qed
    then show ?thesis using False by (simp add: fold_clear_untouched cleared_def)
  qed
  then have "map (\<lambda>r. fold clear_step ?as r) rows = map (cleared owner_id) rows" by simp
  then show ?thesis by (simp add: clear_default_def get_by_owner_eq clear_loop_fold)
qed


lemma getattr_cleared:
  "k \<noteq> ''is_default'' \<Longrightarrow> getattr (cleared owner_id r) k = getattr r k"
  by (simp add: cleared_def getattr_setattr)

lemma not_default_cleared: "\<not> is_default_of owner_id (cleared owner_id r)"
  by (simp add: cleared_def is_default_of_def getattr_setattr)

lemma primary_key_cleared: "primary_key (map (cleared owner_id) rows) = primary_key rows"
  by (simp add: primary_key_def comp_def getattr_cleared)

lemma set_default_eq:
  assumes pk: "primary_key rows" and a: "a \<in> set rows" "getattr a ''deleted_at'' = VNone"
  shows "set_default (getattr a ''id'') owner_id rows =
           (Inr (setattr a ''is_default'' (VBool True)), map (made_default a owner_id) rows)"
proof -
  let ?rows1 = "map (cleared owner_id) rows"
  let ?a1 = "cleared owner_id a"
  have id1: "getattr ?a1 ''id'' = getattr a ''id''" by (simp add: getattr_cleared)
  have "get Address ?rows1 (getattr ?a1 ''id'') = Inr (Some ?a1)"
    using pk a by (intro get_unique) (simp_all add: primary_key_cleared getattr_cleared)
  then have g: "get Address ?rows1 (getattr a ''id'') = Inr (Some ?a1)" by (simp add: id1)
  have obj: "setattr ?a1 ''is_default'' (VBool True) = setattr a ''is_default'' (VBool True)"
    by (simp add: cleared_def setattr_setattr)
  have mem: "getattr a ''id'' \<in> set (map (\<lambda>r. getattr r ''id'') ?rows1)"
    using a(1) by (auto simp: getattr_cleared image_iff)
  have "session_add (getattr a ''id'') (setattr a ''is_default'' (VBool True)) ?rows1 =
        map (made_default a owner_id) rows"
    using mem by (simp add: session_add_def session_write_def made_default_def comp_def getattr_cleared)
  then show ?thesis
    by (simp add: set_default_def clear_default_eq [OF pk] g id1 obj Let_def)
qed

lemma defaults_made_default:
  assumes pk: "primary_key rows" and a: "a \<in> set rows" "getattr a ''deleted_at'' = VNone"
    "getattr a ''owner_id'' = owner_id"
  shows "defaults_of owner_id (map (made_default a owner_id) rows) = [setattr a ''is_default'' (VBool True)]"
proof -
  have iff: "is_default_of owner_id (made_default a owner_id r) = (getattr r ''id'' = getattr a ''id'')" for r
  proof (cases "getattr r ''id'' = getattr a ''id''")
    case True
    then show ?thesis using a(2,3) by (simp add: made_default_def is_default_of_def getattr_setattr)
  next
    case False
    then show ?thesis by (simp add: made_default_def not_default_cleared)
  qed
  have "distinct (map (\<lambda>r. getattr r ''id'') rows)" using pk by (simp add: primary_key_def)
  then have single: "filter (\<lambda>r. getattr r ''id'' = getattr a ''id'') rows = [a]"
    by (rule filter_key_singleton) (use a in simp_all)
  have "defaults_of owner_id (map (made_default a owner_id) rows) =
        map (made_default a owner_id) (filter (\<lambda>r. is_default_of owner_id (made_default a owner_id r)) rows)"
    by (simp add: defaults_of_def filter_map comp_def)
  also have "\<dots> = map (made_default a owner_id) [a]"
    by (simp only: iff single)
  also have "\<dots> = [setattr a ''is_default'' (VBool True)]"
    by (simp add: made_default_def)
  finally show ?thesis .
qed

lemma made_default_frame:
  "k \<noteq> ''is_default'' \<Longrightarrow> primary_key rows \<Longrightarrow> a \<in> set rows \<Longrightarrow> r \<in> set rows \<Longrightarrow>
   getattr (made_default a owner_id r) k = getattr r k"
  using same_id_same_row [of rows r a]
  by (auto simp: made_default_def getattr_setattr getattr_cleared)

lemma primary_key_made_default:
  assumes "primary_key rows" "a \<in> set rows"
  shows "primary_key (map (made_default a owner_id) rows)"
proof -
  have eq: "map ((\<lambda>r. getattr r ''id'') \<circ> made_default a owner_id) rows = map (\<lambda>r. getattr r ''id'') rows"
    by (rule map_cong) (use assms in \<open>simp_all add: made_default_frame\<close>)
  show ?thesis using assms(1) unfolding primary_key_def map_map eq .
qed

section \<open>The default address\<close>

lemmas sample_simps = sample_addresses_def sample_address_def getattr_def primary_key_def
  defaults_of_def is_default_of_def

text \<open>
  C1. For every owner and every live address \<open>a\<close> of that owner, \<^verbatim>\<open>set_default\<close> of
  \<open>a\<close> succeeds and leaves exactly one non-deleted address of the owner with the default
  flag, namely \<open>a\<close>; and \<^verbatim>\<open>set_default\<close> of another live address \<open>b\<close> of the owner
  after it leaves \<open>b\<close> as the only default.
\<close>

theorem set_default_unique:
  assumes "primary_key rows" "a \<in> set rows" "getattr a ''deleted_at'' = VNone"
    "getattr a ''owner_id'' = owner_id"
  shows "fst (set_default (getattr a ''id'') owner_id rows) = Inr (setattr a ''is_default'' (VBool True)) \<and>
         defaults_of owner_id (snd (set_default (getattr a ''id'') owner_id rows)) =
           [setattr a ''is_default'' (VBool True)] \<and>
         (\<forall>b. b \<in> set rows \<and> getattr b ''deleted_at'' = VNone \<and> getattr b ''owner_id'' = owner_id \<and>
              getattr b ''id'' \<noteq> getattr a ''id'' \<longrightarrow>
              defaults_of owner_id
                (snd (set_default (getattr b ''id'') owner_id
                   (snd (set_default (getattr a ''id'') owner_id rows)))) =
              [setattr b ''is_default'' (VBool True)])"
proof (intro conjI allI impI)
  show "fst (set_default (getattr a ''id'') owner_id rows) = Inr (setattr a ''is_default'' (VBool True))"
    using assms by (simp add: set_default_eq)
  show "defaults_of owner_id (snd (set_default (getattr a ''id'') owner_id rows)) =
          [setattr a ''is_default'' (VBool True)]"
    using assms by (simp add: set_default_eq defaults_made_default)
next
  fix b
  assume b: "b \<in> set rows \<and> getattr b ''deleted_at'' = VNone \<and> getattr b ''owner_id'' = owner_id \<and>
             getattr b ''id'' \<noteq> getattr a ''id''"
  let ?rows1 = "map (made_default a owner_id) rows"
  let ?b1 = "made_default a owner_id b"
  have b1: "?b1 = cleared owner_id b" using b by (simp add: made_default_def)
  have pk1: "primary_key ?rows1" using assms by (simp add: primary_key_made_default)
  have in1: "?b1 \<in> set ?rows1" using b by simp
  have attrs: "getattr ?b1 ''deleted_at'' = VNone" "getattr ?b1 ''owner_id'' = owner_id"
    "getattr ?b1 ''id'' = getattr b ''id''"
    using b by (simp_all add: b1 getattr_cleared)
  have "setattr ?b1 ''is_default'' (VBool True) = setattr b ''is_default'' (VBool True)"
    by (simp add: b1 cleared_def setattr_setattr)
  moreover have "defaults_of owner_id (snd (set_default (getattr ?b1 ''id'') owner_id ?rows1)) =
                 [setattr ?b1 ''is_default'' (VBool True)]"
    unfolding set_default_eq [OF pk1 in1 attrs(1)] snd_conv
    by (rule defaults_made_default [OF pk1 in1 attrs(1,2)])
  ultimately show "defaults_of owner_id
                (snd (set_default (getattr b ''id'') owner_id
                   (snd (set_default (getattr a ''id'') owner_id rows)))) =
              [setattr b ''is_default'' (VBool True)]"
    using assms by (simp add: set_default_eq attrs(3))
qed

text \<open>The same on a table of four addresses, three of them of owner 10, one of these soft-deleted.\<close>

theorem set_default_unique_witness:
  "primary_key sample_addresses \<and>
   defaults_of (VUuid 10) sample_addresses = [sample_address 1 10 True VNone] \<and>
   fst (set_default (VUuid 2) (VUuid 10) sample_addresses) = Inr (sample_address 2 10 True VNone) \<and>
   defaults_of (VUuid 10) (snd (set_default (VUuid 2) (VUuid 10) sample_addresses)) =
     [sample_address 2 10 True VNone] \<and>
   defaults_of (VUuid 10)
     (snd (set_default (VUuid 1) (VUuid 10) (snd (set_default (VUuid 2) (VUuid 10) sample_addresses)))) =
     [sample_address 1 10 True VNone]"
proof -
  let ?a = "sample_address 2 10 False VNone"
  let ?b = "sample_address 1 10 True VNone"
  have pk: "primary_key sample_addresses" by (simp add: sample_simps)
  have a: "?a \<in> set sample_addresses" "getattr ?a ''deleted_at'' = VNone"
    "getattr ?a ''owner_id'' = VUuid 10"
    by (simp_all add: sample_simps)
  have b: "?b \<in> set sample_addresses \<and> getattr ?b ''deleted_at'' = VNone \<and>
    getattr ?b ''owner_id'' = VUuid 10 \<and> getattr ?b ''id'' \<noteq> getattr ?a ''id''"
    by (simp add: sample_simps)
  have ids: "getattr ?a ''id'' = VUuid 2" "getattr ?b ''id'' = VUuid 1"
    "setattr ?a ''is_default'' (VBool True) = sample_address 2 10 True VNone"
    "setattr ?b ''is_default'' (VBool True) = sample_address 1 10 True VNone"
    by (simp_all add: sample_simps)
  note t = set_default_unique [OF pk a]
  from t have "defaults_of (VUuid 10)
     (snd (set_default (getattr ?b ''id'') (VUuid 10)
        (snd (set_default (getattr ?a ''id'') (VUuid 10) sample_addresses)))) =
     [setattr ?b ''is_default'' (VBool True)]"
    using b by blast
  moreover have "defaults_of (VUuid 10) sample_addresses = [sample_address 1 10 True VNone]"
    by (simp add: sample_simps)
  ultimately show ?thesis using pk t by (simp only: ids)
qed

text \<open>
  C2. After \<^verbatim>\<open>clear_default\<close> no non-deleted address of the owner carries the default
  flag; the rows that were not a default of the owner, among them every row whose flag
  was unset and every row of another owner, are what they were, and nothing changes
  when the owner had no default.
\<close>

theorem clear_default_clears:
  assumes "primary_key rows"
  shows "fst (clear_default owner_id rows) = Inr () \<and>
         defaults_of owner_id (snd (clear_default owner_id rows)) = [] \<and>
         length (snd (clear_default owner_id rows)) = length rows \<and>
         (\<forall>i<length rows.
            snd (clear_default owner_id rows) ! i =
              (if is_default_of owner_id (rows ! i)
               then setattr (rows ! i) ''is_default'' (VBool False) else rows ! i)) \<and>
         (\<forall>i<length rows.
            \<not> truthy (getattr (rows ! i) ''is_default'') \<or> getattr (rows ! i) ''owner_id'' \<noteq> owner_id \<longrightarrow>
            snd (clear_default owner_id rows) ! i = rows ! i) \<and>
         (defaults_of owner_id rows = [] \<longrightarrow> snd (clear_default owner_id rows) = rows)"
proof -
  have eq: "clear_default owner_id rows = (Inr (), map (cleared owner_id) rows)"
    using assms by (rule clear_default_eq)
  have none: "defaults_of owner_id (map (cleared owner_id) rows) = []"
    by (simp add: defaults_of_def filter_empty_conv not_default_cleared)
  have noop: "map (cleared owner_id) rows = rows" if "defaults_of owner_id rows = []"
  proof (rule map_idI)
    fix r assume "r \<in> set rows"
    with that have "\<not> is_default_of owner_id r" by (simp add: defaults_of_def filter_empty_conv)
    then show "cleared owner_id r = r" by (simp add: cleared_def)
  qed
  show ?thesis
    using none noop by (auto simp: eq cleared_def is_default_of_def)
qed


text \<open>The same on the sample table, for owner 10 and for an owner without addresses.\<close>

theorem clear_default_clears_witness:
  "primary_key sample_addresses \<and>
   defaults_of (VUuid 10) sample_addresses = [sample_address 1 10 True VNone] \<and>
   fst (clear_default (VUuid 10) sample_addresses) = Inr () \<and>
   defaults_of (VUuid 10) (snd (clear_default (VUuid 10) sample_addresses)) = [] \<and>
   snd (clear_default (VUuid 10) sample_addresses) ! 0 = sample_address 1 10 False VNone \<and>
   snd (clear_default (VUuid 10) sample_addresses) ! 2 = sample_address 3 20 True VNone \<and>
   defaults_of (VUuid 30) sample_addresses = [] \<and>
   snd (clear_default (VUuid 30) sample_addresses) = sample_addresses"
proof -
  have pk: "primary_key sample_addresses" by (simp add: sample_simps)
  have d: "defaults_of (VUuid 10) sample_addresses = [sample_address 1 10 True VNone]"
    "defaults_of (VUuid 30) sample_addresses = []"
    by (simp_all add: sample_simps)
  note t = clear_default_clears [OF pk, of "VUuid 10"]
  note u = clear_default_clears [OF pk, of "VUuid 30"]
  have len: "0 < length sample_addresses" "2 < length sample_addresses"
    by (simp_all add: sample_addresses_def)
  have r0: "(if is_default_of (VUuid 10) (sample_addresses ! 0)
       then setattr (sample_addresses ! 0) ''is_default'' (VBool False) else sample_addresses ! 0) =
       sample_address 1 10 False VNone"
    by (simp add: sample_simps)
  have r2: "\<not> truthy (getattr (sample_addresses ! 2) ''is_default'') \<or>
       getattr (sample_addresses ! 2) ''owner_id'' \<noteq> VUuid 10"
    "sample_addresses ! 2 = sample_address 3 20 True VNone"
    by (simp_all add: sample_simps)
  from t len(1) have "snd (clear_default (VUuid 10) sample_addresses) ! 0 =
      (if is_default_of (VUuid 10) (sample_addresses ! 0)
       then setattr (sample_addresses ! 0) ''is_default'' (VBool False) else sample_addresses ! 0)"
    by blast
  then have n0: "snd (clear_default (VUuid 10) sample_addresses) ! 0 = sample_address 1 10 False VNone"
    by (simp only: r0)
  from t len(2) r2(1) have "snd (clear_default (VUuid 10) sample_addresses) ! 2 = sample_addresses ! 2"
    by blast
  then have n2: "snd (clear_default (VUuid 10) sample_addresses) ! 2 = sample_address 3 20 True VNone"
    by (simp only: r2(2))
  have "snd (clear_default (VUuid 30) sample_addresses) = sample_addresses"
    using u d(2) by blast
  then show ?thesis using pk d t n0 n2 by blast
qed

section \<open>The generic repository and the address lookup\<close>

text \<open>
  C4. \<^verbatim>\<open>get_address\<close> fails with 404 \<^verbatim>\<open>Address not found\<close> when no live address has
  the id (none at all, or only soft-deleted ones), and with the very same error when the
  live address of that id belongs to another owner; whatever the table, it never fails
  with a 403.
\<close>

theorem get_address_not_found:
  "((\<forall>r\<in>set rows. getattr r ''id'' = address_id \<longrightarrow> getattr r ''deleted_at'' \<noteq> VNone) \<longrightarrow>
      get_address address_id owner_id rows =
        Inl (HTTPException HTTP_404_NOT_FOUND ''Address not found'')) \<and>
   (primary_key rows \<and> a \<in> set rows \<and> getattr a ''deleted_at'' = VNone \<and>
    getattr a ''id'' = address_id \<and> getattr a ''owner_id'' \<noteq> owner_id \<longrightarrow>
      get_address address_id owner_id rows =
        Inl (HTTPException HTTP_404_NOT_FOUND ''Address not found'')) \<and>
   (\<forall>detail. get_address address_id owner_id rows \<noteq> Inl (HTTPException HTTP_403_FORBIDDEN detail))"
proof (intro conjI impI allI)
  assume "\<forall>r\<in>set rows. getattr r ''id'' = address_id \<longrightarrow> getattr r ''deleted_at'' \<noteq> VNone"
  then have "filter (\<lambda>r. live Address r \<and> getattr r ''id'' = address_id) rows = []"
    by (auto simp: filter_empty_conv)
  then show "get_address address_id owner_id rows =
        Inl (HTTPException HTTP_404_NOT_FOUND ''Address not found'')"
    by (simp add: get_address_def get_eq)
next
  assume h: "primary_key rows \<and> a \<in> set rows \<and> getattr a ''deleted_at'' = VNone \<and>
    getattr a ''id'' = address_id \<and> getattr a ''owner_id'' \<noteq> owner_id"
  then have "get Address rows (getattr a ''id'') = Inr (Some a)"
    by (intro get_unique) simp_all
  with h show "get_address address_id owner_id rows =
        Inl (HTTPException HTTP_404_NOT_FOUND ''Address not found'')"
    by (simp add: get_address_def)
next
  fix detail
  show "get_address address_id owner_id rows \<noteq> Inl (HTTPException HTTP_403_FORBIDDEN detail)"
    unfolding get_address_def get_eq
    by (cases "filter (\<lambda>r. live Address r \<and> getattr r ''id'' = address_id) rows"
          rule: scalar_one_or_none.cases) simp_all
qed

lemma session_add_present:
  "i \<in> set (map (\<lambda>r. getattr r ''id'') rows) \<Longrightarrow>
   session_add i obj rows = map (\<lambda>r. if getattr r ''id'' = i then obj else r) rows"
  by (simp add: session_add_def session_write_def)

lemma mem_session_add: "obj \<in> set (session_add i obj rows)"
  by (auto simp: session_add_def session_write_def image_iff)

lemma scalar_some: "scalar_one_or_none xs = Inr (Some x) \<Longrightarrow> xs = [x]"
  by (cases xs rule: scalar_one_or_none.cases) simp_all

text \<open>
  C7. \<^verbatim>\<open>update\<close> of an entity whose deletion timestamp is set fails with 404 and leaves
  the table as it was; \<^verbatim>\<open>soft_delete\<close> fails with 404 when every row of that id is
  already deleted (or there is none), in particular when it is called again after it
  succeeded, and with the \<^verbatim>\<open>ValueError\<close> of an unsupported operation when the model
  class has no \<^verbatim>\<open>deleted_at\<close>.
\<close>

theorem deleted_entity_not_found:
  "(hasattr m ''deleted_at'' \<and> getattr db_obj ''deleted_at'' \<noteq> VNone \<longrightarrow>
      update m utcnow db_obj obj_in rows =
        (Inl (HTTPException HTTP_404_NOT_FOUND ''Record not found or has been deleted''), rows)) \<and>
   (hasattr m ''deleted_at'' \<and>
    (\<forall>r\<in>set rows. getattr r ''id'' = i \<longrightarrow> getattr r ''deleted_at'' \<noteq> VNone) \<longrightarrow>
      soft_delete m utcnow i rows =
        (Inl (HTTPException HTTP_404_NOT_FOUND (name m @ '' not found'')), rows)) \<and>
   (hasattr m ''deleted_at'' \<and> fst (soft_delete m utcnow i rows) = Inr obj \<longrightarrow>
      soft_delete m later i (snd (soft_delete m utcnow i rows)) =
        (Inl (HTTPException HTTP_404_NOT_FOUND (name m @ '' not found'')),
         snd (soft_delete m utcnow i rows))) \<and>
   (\<not> hasattr m ''deleted_at'' \<longrightarrow>
      (\<exists>msg. soft_delete m utcnow i rows = (Inl (ValueError msg), rows)))"
proof -
  have nf: "soft_delete m t i rs = (Inl (HTTPException HTTP_404_NOT_FOUND (name m @ '' not found'')), rs)"
    if "hasattr m ''deleted_at''" "\<forall>r\<in>set rs. getattr r ''id'' = i \<longrightarrow> getattr r ''deleted_at'' \<noteq> VNone"
    for t rs
  proof -
    have "filter (\<lambda>r. live m r \<and> getattr r ''id'' = i) rs = []"
      using that by (auto simp: filter_empty_conv live_def)
    then show ?thesis using that(1) by (simp add: soft_delete_def get_eq)
  qed
  have again: "soft_delete m later i (snd (soft_delete m utcnow i rows)) =
        (Inl (HTTPException HTTP_404_NOT_FOUND (name m @ '' not found'')),
         snd (soft_delete m utcnow i rows))"
    if h: "hasattr m ''deleted_at''" and ok: "fst (soft_delete m utcnow i rows) = Inr obj"
  proof -
    from h ok obtain db_obj where g: "get m rows i = Inr (Some db_obj)"
      by (auto simp: soft_delete_def split: sum.splits option.splits)
    then have "filter (\<lambda>r. live m r \<and> getattr r ''id'' = i) rows = [db_obj]"
      unfolding get_eq by (rule scalar_some)
    then have "db_obj \<in> set (filter (\<lambda>r. live m r \<and> getattr r ''id'' = i) rows)" by simp
    then have db: "db_obj \<in> set rows" "getattr db_obj ''id'' = i" by simp_all
    let ?obj = "setattr db_obj ''deleted_at'' (VTime utcnow)"
    have mem: "i \<in> set (map (\<lambda>r. getattr r ''id'') rows)" using db by force
    have rows1: "snd (soft_delete m utcnow i rows) = map (\<lambda>r. if getattr r ''id'' = i then ?obj else r) rows"
      using h g db(2) mem by (simp add: soft_delete_def Let_def session_add_present)
    have "\<forall>r\<in>set (snd (soft_delete m utcnow i rows)). getattr r ''id'' = i \<longrightarrow> getattr r ''deleted_at'' \<noteq> VNone"
      unfolding rows1 by (auto simp: getattr_setattr)
    then show ?thesis using h by (rule nf [rotated])
  qed
  show ?thesis
    using nf [where t = utcnow and rs = rows] again
    by (auto simp: update_def soft_delete_def)
qed



lemma filter_filter_conj: "filter P (filter Q xs) = filter (\<lambda>x. Q x \<and> P x) xs"
  by (induction xs) auto




lemma matching_pagination [simp]:
  "matching (q\<lparr>q_offset := a, q_limit := b\<rparr>) rows = matching q rows"
  by (simp add: matching_def)

lemma satisfies_Nil [simp]: "satisfies m [] r"
  by (simp add: satisfies_def)




text \<open>
  The three cases on the sample table: an unknown id, a soft-deleted address and the
  address of another owner give one and the same error.
\<close>

theorem get_address_not_found_witness:
  "get_address (VUuid 9) (VUuid 10) sample_addresses =
     Inl (HTTPException HTTP_404_NOT_FOUND ''Address not found'') \<and>
   get_address (VUuid 4) (VUuid 10) sample_addresses =
     Inl (HTTPException HTTP_404_NOT_FOUND ''Address not found'') \<and>
   primary_key sample_addresses \<and>
   get_address (VUuid 3) (VUuid 10) sample_addresses =
     Inl (HTTPException HTTP_404_NOT_FOUND ''Address not found'') \<and>
   get_address (VUuid 3) (VUuid 10) sample_addresses \<noteq>
     Inl (HTTPException HTTP_403_FORBIDDEN ''Address not found'')"
proof -
  let ?a = "sample_address 3 20 True VNone"
  have missing: "\<forall>r\<in>set sample_addresses. getattr r ''id'' = VUuid 9 \<longrightarrow> getattr r ''deleted_at'' \<noteq> VNone"
    and deleted: "\<forall>r\<in>set sample_addresses. getattr r ''id'' = VUuid 4 \<longrightarrow> getattr r ''deleted_at'' \<noteq> VNone"
    by (simp_all add: sample_simps)
  have foreign: "primary_key sample_addresses \<and> ?a \<in> set sample_addresses \<and>
    getattr ?a ''deleted_at'' = VNone \<and> getattr ?a ''id'' = VUuid 3 \<and> getattr ?a ''owner_id'' \<noteq> VUuid 10"
    by (simp add: sample_simps)
  show ?thesis
    using get_address_not_found [where rows = sample_addresses and address_id = "VUuid 9"
            and owner_id = "VUuid 10"] missing
          get_address_not_found [where rows = sample_addresses and address_id = "VUuid 4"
            and owner_id = "VUuid 10"] deleted
          get_address_not_found [where rows = sample_addresses and address_id = "VUuid 3"
            and owner_id = "VUuid 10" and a = ?a] foreign
    by blast
qed

text \<open>
  On the sample table: an update of the soft-deleted address 4, its soft delete, a
  repeated soft delete of address 1, and a model class without the attribute.
\<close>

theorem deleted_entity_not_found_witness:
  "update Address 9 (sample_address 4 10 True (VTime 7)) sample_update sample_addresses =
     (Inl (HTTPException HTTP_404_NOT_FOUND ''Record not found or has been deleted''), sample_addresses) \<and>
   soft_delete Address 9 (VUuid 4) sample_addresses =
     (Inl (HTTPException HTTP_404_NOT_FOUND ''Address not found''), sample_addresses) \<and>
   fst (soft_delete Address 9 (VUuid 1) sample_addresses) = Inr (sample_address 1 10 True (VTime 9)) \<and>
   fst (soft_delete Address 12 (VUuid 1) (snd (soft_delete Address 9 (VUuid 1) sample_addresses))) =
     Inl (HTTPException HTTP_404_NOT_FOUND ''Address not found'') \<and>
   (\<exists>msg. soft_delete Plain 9 (VUuid 1) sample_addresses = (Inl (ValueError msg), sample_addresses))"
proof -
  let ?d = "sample_address 4 10 True (VTime 7)"
  have h1: "hasattr Address ''deleted_at'' \<and> getattr ?d ''deleted_at'' \<noteq> VNone"
    by (simp add: sample_simps)
  have h2: "hasattr Address ''deleted_at'' \<and>
    (\<forall>r\<in>set sample_addresses. getattr r ''id'' = VUuid 4 \<longrightarrow> getattr r ''deleted_at'' \<noteq> VNone)"
    by (simp add: sample_simps)
  have "filter (\<lambda>r. live Address r \<and> getattr r ''id'' = VUuid 1) sample_addresses =
          [sample_address 1 10 True VNone]"
    by (simp add: sample_simps)
  then have ok: "fst (soft_delete Address 9 (VUuid 1) sample_addresses) =
          Inr (sample_address 1 10 True (VTime 9))"
    by (simp add: soft_delete_def get_eq sample_address_def Let_def)
  then have h3: "hasattr Address ''deleted_at'' \<and>
    fst (soft_delete Address 9 (VUuid 1) sample_addresses) = Inr (sample_address 1 10 True (VTime 9))"
    by simp
  have h4: "\<not> hasattr Plain ''deleted_at''" by (simp add: hasattr_def Plain_def)
  have n: "name Address = ''Address''" by (simp add: Address_def)
  note t = deleted_entity_not_found [where m = Address and utcnow = 9 and rows = sample_addresses]
  from t [where db_obj = ?d and obj_in = sample_update] h1
  have c1: "update Address 9 ?d sample_update sample_addresses =
     (Inl (HTTPException HTTP_404_NOT_FOUND ''Record not found or has been deleted''), sample_addresses)"
    by blast
  from t [where i = "VUuid 4"] h2
  have c2: "soft_delete Address 9 (VUuid 4) sample_addresses =
     (Inl (HTTPException HTTP_404_NOT_FOUND (name Address @ '' not found'')), sample_addresses)"
    by blast
  from t [where i = "VUuid 1" and obj = "sample_address 1 10 True (VTime 9)" and later = 12] h3
  have c3: "soft_delete Address 12 (VUuid 1) (snd (soft_delete Address 9 (VUuid 1) sample_addresses)) =
     (Inl (HTTPException HTTP_404_NOT_FOUND (name Address @ '' not found'')),
      snd (soft_delete Address 9 (VUuid 1) sample_addresses))"
    by blast
  from deleted_entity_not_found [where m = Plain and utcnow = 9 and i = "VUuid 1"
         and rows = sample_addresses] h4
  have c4: "\<exists>msg. soft_delete Plain 9 (VUuid 1) sample_addresses = (Inl (ValueError msg), sample_addresses)"
    by blast
  show ?thesis using c1 c2 c3 c4 ok by (simp add: n)
qed



section \<open>Users, passwords and the guard\<close>

lemma session_add_same_id:
  assumes "r \<in> set (session_add i obj rows)" "getattr r ''id'' = i" "getattr obj ''id'' = i"
  shows "r = obj"
proof (cases "i \<in> set (map (\<lambda>r. getattr r ''id'') rows)")
  case True
  then show ?thesis using assms by (auto simp: session_add_def session_write_def split: if_splits)
next
  case False
  then show ?thesis using assms by (auto simp: session_add_def)
qed

text \<open>
  C9. \<^verbatim>\<open>change_password\<close> fails with a 400 and leaves the table as it was when the old
  password does not verify against the stored hash, and also when the new password
  verifies against it. Otherwise it succeeds, the user's row carries the hash of the new
  password, and the new password verifies against it, bcrypt accepting the hash it has
  just made.
\<close>

theorem change_password_rules:
  "(\<not> verify_password bc old_password (getattr user ''hashed_password'') \<longrightarrow>
      change_password bc salt utcnow user old_password new_password rows =
        (Inl (HTTPException HTTP_400_BAD_REQUEST ''Incorrect password''), rows)) \<and>
   (verify_password bc new_password (getattr user ''hashed_password'') \<longrightarrow>
      (\<exists>detail. change_password bc salt utcnow user old_password new_password rows =
        (Inl (HTTPException HTTP_400_BAD_REQUEST detail), rows))) \<and>
   (verify_password bc old_password (getattr user ''hashed_password'') \<and>
    \<not> verify_password bc new_password (getattr user ''hashed_password'') \<and>
    checkpw bc (truncate72 new_password) (hashpw bc (truncate72 new_password) salt) = Some True \<longrightarrow>
      fst (change_password bc salt utcnow user old_password new_password rows) = Inr () \<and>
      (\<exists>r\<in>set (snd (change_password bc salt utcnow user old_password new_password rows)).
          getattr r ''id'' = getattr user ''id'') \<and>
      (\<forall>r\<in>set (snd (change_password bc salt utcnow user old_password new_password rows)).
          getattr r ''id'' = getattr user ''id'' \<longrightarrow>
          getattr r ''hashed_password'' = VStr (get_password_hash bc salt new_password) \<and>
          verify_password bc new_password (getattr r ''hashed_password'')))"
proof (intro conjI impI)
  assume "\<not> verify_password bc old_password (getattr user ''hashed_password'')"
  then show "change_password bc salt utcnow user old_password new_password rows =
        (Inl (HTTPException HTTP_400_BAD_REQUEST ''Incorrect password''), rows)"
    by (simp add: change_password_def)
next
  assume "verify_password bc new_password (getattr user ''hashed_password'')"
  then show "\<exists>detail. change_password bc salt utcnow user old_password new_password rows =
        (Inl (HTTPException HTTP_400_BAD_REQUEST detail), rows)"
    by (simp add: change_password_def)
next
  assume h: "verify_password bc old_password (getattr user ''hashed_password'') \<and>
    \<not> verify_password bc new_password (getattr user ''hashed_password'') \<and>
    checkpw bc (truncate72 new_password) (hashpw bc (truncate72 new_password) salt) = Some True"
  let ?obj = "setattr (setattr user ''hashed_password'' (VStr (get_password_hash bc salt new_password)))
                ''updated_at'' (VTime utcnow)"
  let ?rows1 = "snd (change_password bc salt utcnow user old_password new_password rows)"
  have rows1: "?rows1 = session_add (getattr user ''id'') ?obj rows"
    using h by (simp add: change_password_def update_password_def Let_def)
  have id: "getattr ?obj ''id'' = getattr user ''id''" by (simp add: getattr_setattr)
  have hash: "getattr ?obj ''hashed_password'' = VStr (get_password_hash bc salt new_password)"
    by (simp add: getattr_setattr)
  have ver: "verify_password bc new_password (VStr (get_password_hash bc salt new_password))"
    using h by (simp add: verify_password_def get_password_hash_def)
  show "fst (change_password bc salt utcnow user old_password new_password rows) = Inr ()"
    using h by (simp add: change_password_def)
  show "\<exists>r\<in>set ?rows1. getattr r ''id'' = getattr user ''id''"
    unfolding rows1 using id mem_session_add by blast
  show "\<forall>r\<in>set ?rows1. getattr r ''id'' = getattr user ''id'' \<longrightarrow>
          getattr r ''hashed_password'' = VStr (get_password_hash bc salt new_password) \<and>
          verify_password bc new_password (getattr r ''hashed_password'')"
  proof (intro ballI impI)
    fix r assume "r \<in> set ?rows1" "getattr r ''id'' = getattr user ''id''"
    then have "r = ?obj" unfolding rows1 using id by (rule session_add_same_id)
    then show "getattr r ''hashed_password'' = VStr (get_password_hash bc salt new_password) \<and>
          verify_password bc new_password (getattr r ''hashed_password'')"
      using hash ver by simp
  qed
qed

lemmas toy_simps = toy_bcrypt_def verify_password_def get_password_hash_def truncate72_def
  sample_users_def sample_user_def getattr_def

text \<open>
  With the stand-in for bcrypt: a wrong old password, a new password equal to the
  current one, and a change that goes through.
\<close>

theorem change_password_rules_witness:
  "change_password toy_bcrypt ''salt'' 9 (sample_user 1 ''a@x.com'' (rev ''pw12345678'') True VNone)
      ''wrong-password'' ''newpass123'' sample_users =
     (Inl (HTTPException HTTP_400_BAD_REQUEST ''Incorrect password''), sample_users) \<and>
   (\<exists>detail. change_password toy_bcrypt ''salt'' 9
      (sample_user 1 ''a@x.com'' (rev ''pw12345678'') True VNone)
      ''pw12345678'' ''pw12345678'' sample_users =
     (Inl (HTTPException HTTP_400_BAD_REQUEST detail), sample_users)) \<and>
   fst (change_password toy_bcrypt ''salt'' 9 (sample_user 1 ''a@x.com'' (rev ''pw12345678'') True VNone)
      ''pw12345678'' ''newpass123'' sample_users) = Inr () \<and>
   verify_password toy_bcrypt ''newpass123''
     (getattr (hd (snd (change_password toy_bcrypt ''salt'' 9
        (sample_user 1 ''a@x.com'' (rev ''pw12345678'') True VNone)
        ''pw12345678'' ''newpass123'' sample_users))) ''hashed_password'')"
proof -
  let ?u = "sample_user 1 ''a@x.com'' (rev ''pw12345678'') True VNone"
  let ?rows1 = "snd (change_password toy_bcrypt ''salt'' 9 ?u ''pw12345678'' ''newpass123'' sample_users)"
  have h1: "\<not> verify_password toy_bcrypt ''wrong-password'' (getattr ?u ''hashed_password'')"
    by (simp add: toy_simps)
  have h2: "verify_password toy_bcrypt ''pw12345678'' (getattr ?u ''hashed_password'')"
    by (simp add: toy_simps)
  have h3: "verify_password toy_bcrypt ''pw12345678'' (getattr ?u ''hashed_password'') \<and>
    \<not> verify_password toy_bcrypt ''newpass123'' (getattr ?u ''hashed_password'') \<and>
    checkpw toy_bcrypt (truncate72 ''newpass123'') (hashpw toy_bcrypt (truncate72 ''newpass123'') ''salt'') =
      Some True"
    by (simp add: toy_simps)
  have hd: "hd ?rows1 \<in> set ?rows1" "getattr (hd ?rows1) ''id'' = getattr ?u ''id''"
    by (simp_all add: change_password_def update_password_def Let_def session_add_def
          session_write_def toy_simps)
  note t = change_password_rules [where bc = toy_bcrypt and salt = "''salt''" and utcnow = 9
      and user = ?u and rows = sample_users]
  from t [where old_password = "''wrong-password''" and new_password = "''newpass123''"] h1
  have c1: "change_password toy_bcrypt ''salt'' 9 ?u ''wrong-password'' ''newpass123'' sample_users =
     (Inl (HTTPException HTTP_400_BAD_REQUEST ''Incorrect password''), sample_users)"
    by blast
  from t [where old_password = "''pw12345678''" and new_password = "''pw12345678''"] h2
  have c2: "\<exists>detail. change_password toy_bcrypt ''salt'' 9 ?u ''pw12345678'' ''pw12345678'' sample_users =
     (Inl (HTTPException HTTP_400_BAD_REQUEST detail), sample_users)"
    by blast
  from t [where old_password = "''pw12345678''" and new_password = "''newpass123''"] h3 hd
  have c3: "fst (change_password toy_bcrypt ''salt'' 9 ?u ''pw12345678'' ''newpass123'' sample_users) = Inr ()"
    and c4: "verify_password toy_bcrypt ''newpass123'' (getattr (hd ?rows1) ''hashed_password'')"
    by blast+
  show ?thesis using c1 c2 c3 c4 by blast
qed

lemma get_user_by_email_eq:
  "get_user_by_email e rows =
     scalar_one_or_none (filter (\<lambda>r. getattr r ''email'' = VStr e \<and> getattr r ''deleted_at'' = VNone) rows)"
  by (simp add: get_user_by_email_def Let_def execute_def paginate_def matching_where matching_select
        filter_filter_conj)





text \<open>
  C3. The set-default operation is to fail with 404 unless the address is live and owned
  by the caller. On the sample table, the caller 10 asking for address 3 of owner 20
  succeeds and gets that address back, losing the own default on the way; asking for an
  unknown or soft-deleted id ends in an \<^verbatim>\<open>AttributeError\<close>. \<^verbatim>\<open>get_address\<close>, which
  the other operations of the service go through, answers the same request with 404.
\<close>

theorem set_default_not_guarded:
  "fst (service_set_default (VUuid 3) (VUuid 10) sample_addresses) =
     Inr (model_validate AddressPublic (sample_address 3 20 True VNone)) \<and>
   defaults_of (VUuid 10) sample_addresses = [sample_address 1 10 True VNone] \<and>
   defaults_of (VUuid 10) (snd (service_set_default (VUuid 3) (VUuid 10) sample_addresses)) = [] \<and>
   fst (service_set_default (VUuid 9) (VUuid 10) sample_addresses) =
     Inl (AttributeError ''NoneType'' ''is_default'') \<and>
   fst (service_set_default (VUuid 4) (VUuid 10) sample_addresses) =
     Inl (AttributeError ''NoneType'' ''is_default'') \<and>
   get_address (VUuid 3) (VUuid 10) sample_addresses =
     Inl (HTTPException HTTP_404_NOT_FOUND ''Address not found'')"
proof -
  have pk: "primary_key sample_addresses" by (simp add: sample_simps)
  have cl: "clear_default (VUuid 10) sample_addresses =
     (Inr (), [sample_address 1 10 False VNone, sample_address 2 10 False VNone,
               sample_address 3 20 True VNone, sample_address 4 10 True (VTime 7)])"
    unfolding clear_default_eq [OF pk]
    by (simp add: cleared_def sample_simps)
  let ?rows1 = "[sample_address 1 10 False VNone, sample_address 2 10 False VNone,
               sample_address 3 20 True VNone, sample_address 4 10 True (VTime 7)]"
  have g3: "get Address ?rows1 (VUuid 3) = Inr (Some (sample_address 3 20 True VNone))"
    and g9: "get Address ?rows1 (VUuid 9) = Inr None"
    and g4: "get Address ?rows1 (VUuid 4) = Inr None"
    by (simp_all add: get_eq sample_simps)
  have s3: "set_default (VUuid 3) (VUuid 10) sample_addresses =
      (Inr (sample_address 3 20 True VNone), ?rows1)"
    unfolding set_default_def cl prod.case sum.case g3 option.case
    by (simp add: Let_def session_add_def session_write_def sample_address_def getattr_def)
  have s9: "set_default (VUuid 9) (VUuid 10) sample_addresses =
      (Inl (AttributeError ''NoneType'' ''is_default''), ?rows1)"
    unfolding set_default_def cl prod.case sum.case g9 option.case by simp
  have s4: "set_default (VUuid 4) (VUuid 10) sample_addresses =
      (Inl (AttributeError ''NoneType'' ''is_default''), ?rows1)"
    unfolding set_default_def cl prod.case sum.case g4 option.case by simp
  have d0: "defaults_of (VUuid 10) sample_addresses = [sample_address 1 10 True VNone]"
    and d1: "defaults_of (VUuid 10) ?rows1 = []"
    by (simp_all add: sample_simps)
  have ga: "get_address (VUuid 3) (VUuid 10) sample_addresses =
     Inl (HTTPException HTTP_404_NOT_FOUND ''Address not found'')"
    by (simp add: get_address_def get_eq sample_simps)
  show ?thesis
    using d0 d1 by (simp add: service_set_default_def s3 s9 s4 ga)
qed

text \<open>
  C5. The guard is to resolve the token's subject to a live user only. On the sample
  table the token of user 2, whose deletion timestamp is set and whose active flag is
  true, is resolved to that user, while the repository's \<^verbatim>\<open>get\<close> and
  \<^verbatim>\<open>get_user_by_email\<close> do not find the row.
\<close>

theorem get_current_user_deleted_user:
  "get_current_user sample_decode sample_users ''token-of-2'' =
     Inr (sample_user 2 ''b@x.com'' (rev ''secret-of-b'') True (VTime 7)) \<and>
   getattr (sample_user 2 ''b@x.com'' (rev ''secret-of-b'') True (VTime 7)) ''deleted_at'' = VTime 7 \<and>
   get User sample_users (VUuid 2) = Inr None \<and>
   get_user_by_email ''b@x.com'' sample_users = Inr None \<and>
   get_current_user sample_decode sample_users ''token-of-3'' =
     Inl (HTTPException HTTP_400_BAD_REQUEST ''Inactive user'') \<and>
   get_current_user sample_decode sample_users ''forged'' =
     Inl (HTTPException HTTP_403_FORBIDDEN ''Could not validate credentials'')"
proof -
  have d: "hasattr User ''deleted_at''" by (simp add: hasattr_def User_def)
  show ?thesis
    by (simp add: get_current_user_def sample_decode_def session_get_def get_eq live_def d
          get_user_by_email_eq sample_users_def sample_user_def getattr_def)
qed


end
